theory Spec2Isabelle
  imports Main "HOL-Library.Sublist"
begin

section \<open>Data model of \<^verbatim>\<open>src/lib.ts\<close>\<close>

text \<open>
  Optional fields (\<^verbatim>\<open>field?: T\<close>) are options: \<open>None\<close> is JavaScript's
  \<^verbatim>\<open>undefined\<close>. A value of type \<^verbatim>\<open>string[] | string\<close> is a two-variant datatype.
\<close>

record SiteConfig =
  outDir :: "string option"
  configPath :: "string option"
  pathPrefix :: "string option"
  templateFormats :: "string list option"
  ignoreGlobal :: "bool option"

text \<open>\<^verbatim>\<open>type SiteSpec = string | [string, SiteConfig]\<close>\<close>

datatype SiteSpec = SiteString string | SitePair string SiteConfig

datatype str_or_list = Str string | StrList "string list"

record Config =
  baseDir :: string
  outDir :: string
  sites :: "SiteSpec list"
  pathPrefix :: "string option"
  templateFormats :: "string list option"
  excludes :: "str_or_list option"
  includesDir :: "string option"
  layoutsDir :: "string option"

definition DEFAULT_CONFIG :: Config where
  "DEFAULT_CONFIG =
     \<lparr>baseDir = ''sites/'', outDir = ''_out/'', sites = [SiteString ''*''],
      pathPrefix = None, templateFormats = None, excludes = None,
      includesDir = Some ''_includes/'', layoutsDir = Some ''_layouts/''\<rparr>"

section \<open>Config resolver: \<^verbatim>\<open>matchSiteConfig\<close>\<close>

text \<open>
  \<^verbatim>\<open>const glob = typeof siteSpec === 'string' ? siteSpec : siteSpec[0]\<close>
\<close>

fun specGlob :: "SiteSpec \<Rightarrow> string" where
  "specGlob (SiteString g) = g"
| "specGlob (SitePair g c) = g"

text \<open>
  The loop of \<^verbatim>\<open>matchSiteConfig\<close> over \<^verbatim>\<open>config.sites\<close>. The glob matcher of the
  external \<^verbatim>\<open>minimatch\<close> package is the parameter \<open>minimatch\<close>, called as in the
  source with the site first and the glob second. The result is the JavaScript return
  value: \<open>None\<close> is \<^verbatim>\<open>undefined\<close>, which the function returns both from the bare
  \<^verbatim>\<open>return\<close> of a matching string spec and by falling off the end of the loop.
\<close>

fun matchSites :: "(string \<Rightarrow> string \<Rightarrow> bool) \<Rightarrow> SiteSpec list \<Rightarrow> string \<Rightarrow> SiteConfig option" where
  "matchSites minimatch [] site = None"
| "matchSites minimatch (siteSpec # rest) site =
     (if minimatch site (specGlob siteSpec)
      then (case siteSpec of SiteString g \<Rightarrow> None | SitePair g c \<Rightarrow> Some c)
      else matchSites minimatch rest site)"

definition matchSiteConfig :: "(string \<Rightarrow> string \<Rightarrow> bool) \<Rightarrow> Config \<Rightarrow> string \<Rightarrow> SiteConfig option" where
  "matchSiteConfig minimatch config site = matchSites minimatch (sites config) site"

text \<open>
  A concrete matcher for evaluating examples: the fragment of glob matching in which
  \<^verbatim>\<open>*\<close> stands for any run of characters other than the separator, \<^verbatim>\<open>?\<close> for one
  such character, and every other character for itself. It is the first argument of
  \<open>matchSiteConfig\<close> in closed examples only; the general theorems hold for every matcher.
\<close>

fun globFragment :: "string \<Rightarrow> string \<Rightarrow> bool" where
  "globFragment [] [] = True"
| "globFragment [] (c # cs) = False"
| "globFragment (p # ps) [] = (p = CHR ''*'' \<and> globFragment ps [])"
| "globFragment (p # ps) (c # cs) =
     (if p = CHR ''*''
      then globFragment ps (c # cs) \<or> (c \<noteq> CHR ''/'' \<and> globFragment (p # ps) cs)
      else if p = CHR ''?''
      then c \<noteq> CHR ''/'' \<and> globFragment ps cs
      else p = c \<and> globFragment ps cs)"

definition minimatchFragment :: "string \<Rightarrow> string \<Rightarrow> bool" where
  "minimatchFragment site glob = globFragment glob site"

text \<open>The first spec of a list whose glob matches the site, if any.\<close>

definition firstMatch :: "(string \<Rightarrow> string \<Rightarrow> bool) \<Rightarrow> Config \<Rightarrow> string \<Rightarrow> SiteSpec option" where
  "firstMatch minimatch config site = find (\<lambda>s. minimatch site (specGlob s)) (sites config)"

definition docsOverride :: SiteConfig where
  "docsOverride =
     \<lparr>SiteConfig.outDir = None, configPath = Some ''docs.config.js'', pathPrefix = None,
      templateFormats = None, ignoreGlobal = None\<rparr>"

definition otherOverride :: SiteConfig where
  "otherOverride = docsOverride\<lparr>configPath := Some ''other.js''\<rparr>"

definition exampleConfig :: Config where
  "exampleConfig =
     DEFAULT_CONFIG\<lparr>sites :=
       [SiteString ''blog/*'', SitePair ''docs'' docsOverride, SitePair ''*'' otherOverride]\<rparr>"

section \<open>String and truthiness helpers\<close>

definition startsWith :: "string \<Rightarrow> string \<Rightarrow> bool" where
  "startsWith s t = prefix t s"

definition endsWith :: "string \<Rightarrow> string \<Rightarrow> bool" where
  "endsWith s t = suffix t s"

text \<open>
  JavaScript truthiness of an optional boolean: \<^verbatim>\<open>undefined\<close> and \<^verbatim>\<open>false\<close> are
  falsy.
\<close>

fun truthy :: "bool option \<Rightarrow> bool" where
  "truthy None = False"
| "truthy (Some b) = b"

text \<open>
  The errors a call can throw: the two JavaScript error classes met here, and the
  system error of a file operation that fails.
\<close>

datatype js_error = TypeError | RangeError | SystemError

section \<open>Pattern matcher: \<^verbatim>\<open>findSites\<close>\<close>

text \<open>
  The \<^verbatim>\<open>.gitignore\<close> of the working directory as \<^verbatim>\<open>findSites\<close> meets it:
  \<^verbatim>\<open>existsSync('.gitignore')\<close> is false; or it is true and \<^verbatim>\<open>readFileSync\<close> throws
  (the name is a directory, or the file may not be read); or the file is read, and the
  \<^verbatim>\<open>ignore\<close> package built from it answers for a path whether it is ignored, or
  throws on a path it does not accept.
\<close>

datatype gitignore_file =
    NoGitignore
  | Unreadable
  | Rules "string \<Rightarrow> js_error + bool"

text \<open>
  What \<^verbatim>\<open>findSites\<close> takes from outside the repository is a record of its own:
  \<^verbatim>\<open>join\<close> and \<^verbatim>\<open>relative\<close> of Node's \<^verbatim>\<open>path\<close> module, the \<^verbatim>\<open>.gitignore\<close> of the
  working directory, and \<^verbatim>\<open>glob.sync\<close>, a function of the pattern and the
  \<^verbatim>\<open>ignore\<close> option that reads the file system.
\<close>

record env =
  path_join :: "string \<Rightarrow> string \<Rightarrow> string"
  path_relative :: "string \<Rightarrow> string \<Rightarrow> string"
  gitignore :: gitignore_file
  globSync :: "string \<Rightarrow> str_or_list option \<Rightarrow> string list"

text \<open>\<^verbatim>\<open>ig.filter(paths)\<close>: keeps the paths that are not ignored, in order.\<close>

fun ignoreFilterList :: "(string \<Rightarrow> js_error + bool) \<Rightarrow> string list \<Rightarrow> js_error + string list" where
  "ignoreFilterList ignores [] = Inr []"
| "ignoreFilterList ignores (p # ps) =
     (case ignores p of
        Inl e \<Rightarrow> Inl e
      | Inr ignored \<Rightarrow>
          (case ignoreFilterList ignores ps of
             Inl e \<Rightarrow> Inl e
           | Inr kept \<Rightarrow> Inr (if ignored then kept else p # kept)))"

text \<open>
  The first statement of \<^verbatim>\<open>findSites\<close>, which builds the filter before any pattern
  is looked at:
  \<^verbatim>\<open>const ignoreFilter = existsSync('.gitignore') ? (() => { const ig =
  ignore().add(readFileSync('.gitignore').toString()); return ig.filter.bind(ig) })()
  : (x) => x\<close>.
  The read is not guarded: when it throws, \<^verbatim>\<open>findSites\<close> throws.
\<close>

definition ignoreFilter :: "env \<Rightarrow> js_error + (string list \<Rightarrow> js_error + string list)" where
  "ignoreFilter E =
     (case gitignore E of
        NoGitignore \<Rightarrow> Inr (\<lambda>paths. Inr paths)
      | Unreadable \<Rightarrow> Inl SystemError
      | Rules ignores \<Rightarrow> Inr (ignoreFilterList ignores))"

text \<open>
  \<^verbatim>\<open>!relative(dir, base).startsWith('..')\<close>: the test the source applies to a match
  and a boundary directory.
\<close>

definition inside :: "env \<Rightarrow> string \<Rightarrow> string \<Rightarrow> bool" where
  "inside E dir base = (\<not> startsWith (path_relative E dir base) ''..'')"

text \<open>\<^verbatim>\<open>config.includesDir && !relative(config.includesDir, base).startsWith('..')\<close>\<close>

fun insideOpt :: "env \<Rightarrow> string option \<Rightarrow> string \<Rightarrow> bool" where
  "insideOpt E None base = False"
| "insideOpt E (Some dir) base = (dir \<noteq> [] \<and> inside E dir base)"

text \<open>The condition of the \<^verbatim>\<open>continue\<close> in the inner loop.\<close>

definition dropped :: "env \<Rightarrow> Config \<Rightarrow> string \<Rightarrow> bool" where
  "dropped E config base =
     (inside E (Config.outDir config) base \<or>
      insideOpt E (includesDir config) base \<or>
      insideOpt E (layoutsDir config) base)"

text \<open>The inner loop over the matches of one pattern; \<open>results\<close> is the array pushed to.\<close>

fun pushBases :: "env \<Rightarrow> Config \<Rightarrow> string list \<Rightarrow> string list \<Rightarrow> string list" where
  "pushBases E config results [] = results"
| "pushBases E config results (base # bases) =
     (if dropped E config base
      then pushBases E config results bases
      else pushBases E config (results @ [path_relative E (baseDir config) base]) bases)"

text \<open>
  The pattern as it is handed to \<^verbatim>\<open>glob.sync\<close>: a separator is appended when the
  pattern does not end with one, then the pattern is joined to \<^verbatim>\<open>config.baseDir\<close>.
\<close>

definition globPattern :: "env \<Rightarrow> Config \<Rightarrow> string \<Rightarrow> string" where
  "globPattern E config pattern =
     path_join E (baseDir config) (if \<not> endsWith pattern ''/'' then pattern @ ''/'' else pattern)"

text \<open>
  The outer loop over the patterns, with the filter built before it. An error thrown by
  the filter ends the call.
\<close>

fun findSitesLoop ::
  "env \<Rightarrow> Config \<Rightarrow> (string list \<Rightarrow> js_error + string list) \<Rightarrow> string list \<Rightarrow> string list \<Rightarrow>
     js_error + string list" where
  "findSitesLoop E config filt results [] = Inr results"
| "findSitesLoop E config filt results (pattern # patterns) =
     (case filt (globSync E (globPattern E config pattern) (excludes config)) of
        Inl e \<Rightarrow> Inl e
      | Inr bases \<Rightarrow> findSitesLoop E config filt (pushBases E config results bases) patterns)"

fun patternList :: "str_or_list \<Rightarrow> string list" where
  "patternList (Str p) = [p]"
| "patternList (StrList ps) = ps"

definition findSites :: "env \<Rightarrow> Config \<Rightarrow> str_or_list \<Rightarrow> js_error + string list" where
  "findSites E config patterns =
     (case ignoreFilter E of
        Inl e \<Rightarrow> Inl e
      | Inr filt \<Rightarrow> findSitesLoop E config filt [] (patternList patterns))"

section \<open>The \<^verbatim>\<open>path\<close> functions on POSIX, for concrete file systems\<close>

text \<open>
  Node's \<^verbatim>\<open>path.posix\<close> as its documentation describes it, on paths split at the
  separator. It instantiates \<open>path_join\<close> and \<open>path_relative\<close> where an example is
  evaluated; the general theorems are about every \<open>env\<close>.
\<close>

fun splitOn :: "char \<Rightarrow> string \<Rightarrow> string list" where
  "splitOn c [] = [[]]"
| "splitOn c (x # xs) =
     (if x = c then [] # splitOn c xs
      else (case splitOn c xs of [] \<Rightarrow> [[x]] | s # ss \<Rightarrow> (x # s) # ss))"

fun joinSegs :: "string list \<Rightarrow> string" where
  "joinSegs [] = []"
| "joinSegs [s] = s"
| "joinSegs (s # t # ss) = s @ ''/'' @ joinSegs (t # ss)"

text \<open>
  \<^verbatim>\<open>normalizeString\<close>: empty and \<^verbatim>\<open>.\<close> segments vanish, \<^verbatim>\<open>..\<close> removes the segment
  before it, and is kept only where nothing is left to remove and the path is relative.
  \<open>acc\<close> holds the segments kept so far, last first.
\<close>

fun normalizeSegs :: "bool \<Rightarrow> string list \<Rightarrow> string list \<Rightarrow> string list" where
  "normalizeSegs allowAboveRoot acc [] = rev acc"
| "normalizeSegs allowAboveRoot acc (s # ss) =
     (if s = [] \<or> s = ''.'' then normalizeSegs allowAboveRoot acc ss
      else if s = ''..'' then
        (case acc of
           [] \<Rightarrow> normalizeSegs allowAboveRoot (if allowAboveRoot then [''..''] else []) ss
         | a # as \<Rightarrow>
             if a = ''..''
             then normalizeSegs allowAboveRoot (if allowAboveRoot then ''..'' # acc else acc) ss
             else normalizeSegs allowAboveRoot as ss)
      else normalizeSegs allowAboveRoot (s # acc) ss)"

definition isAbsolute :: "string \<Rightarrow> bool" where
  "isAbsolute p = startsWith p ''/''"

definition posix_normalize :: "string \<Rightarrow> string" where
  "posix_normalize p =
     (if p = [] then ''.''
      else
        (let n = joinSegs (normalizeSegs (\<not> isAbsolute p) [] (splitOn CHR ''/'' p))
         in if n = [] then (if isAbsolute p then ''/'' else if endsWith p ''/'' then ''./'' else ''.'')
            else (if isAbsolute p then ''/'' else []) @ n @ (if endsWith p ''/'' then ''/'' else [])))"

definition posix_join :: "string \<Rightarrow> string \<Rightarrow> string" where
  "posix_join a b =
     (if a = [] \<and> b = [] then ''.''
      else if a = [] then posix_normalize b
      else if b = [] then posix_normalize a
      else posix_normalize (a @ ''/'' @ b))"

text \<open>
  \<^verbatim>\<open>path.resolve(p)\<close> in the working directory \<open>cwd\<close>, as the segments below the
  root: an absolute \<open>p\<close> stands alone, any other is appended to \<open>cwd\<close>.
\<close>

definition resolveSegs :: "string \<Rightarrow> string \<Rightarrow> string list" where
  "resolveSegs cwd p =
     normalizeSegs False []
       (if isAbsolute p then splitOn CHR ''/'' p
        else splitOn CHR ''/'' cwd @ splitOn CHR ''/'' p)"

fun stripCommon :: "string list \<Rightarrow> string list \<Rightarrow> string list \<times> string list" where
  "stripCommon (x # xs) (y # ys) = (if x = y then stripCommon xs ys else (x # xs, y # ys))"
| "stripCommon xs ys = (xs, ys)"

text \<open>
  \<^verbatim>\<open>path.relative(from, to)\<close>: both resolved, one \<^verbatim>\<open>..\<close> for each segment of
  \<open>from\<close> below the common directory, then what is left of \<open>to\<close>.
\<close>

definition posix_relative :: "string \<Rightarrow> string \<Rightarrow> string \<Rightarrow> string" where
  "posix_relative cwd from to =
     (case stripCommon (resolveSegs cwd from) (resolveSegs cwd to) of
        (fs, ts) \<Rightarrow> joinSegs (map (\<lambda>s. ''..'') fs @ ts))"

definition posixEnv ::
  "string \<Rightarrow> gitignore_file \<Rightarrow> (string \<Rightarrow> str_or_list option \<Rightarrow> string list) \<Rightarrow> env" where
  "posixEnv cwd gi glob =
     \<lparr>path_join = posix_join, path_relative = posix_relative cwd, gitignore = gi, globSync = glob\<rparr>"

text \<open>
  The directory \<open>base\<close> is the directory \<open>dir\<close> or lies under it, both resolved in
  the working directory \<open>cwd\<close>.
\<close>

definition nestedUnder :: "string \<Rightarrow> string \<Rightarrow> string \<Rightarrow> bool" where
  "nestedUnder cwd dir base = prefix (resolveSegs cwd dir) (resolveSegs cwd base)"


section \<open>Site runner: \<^verbatim>\<open>runEleventy\<close>\<close>

text \<open>
  \<^verbatim>\<open>configPath\<close> is declared a string; it is an option here because the source tests
  it against \<^verbatim>\<open>undefined\<close>. \<^verbatim>\<open>quite\<close> is the source's spelling of the quiet flag.
\<close>

record RunOptions =
  sourceDir :: string
  outDir :: string
  configPath :: "string option"
  pathPrefix :: "string option"
  templateFormats :: "string list option"
  port :: "int option"
  serve :: "bool option"
  watch :: "bool option"
  dryRun :: "bool option"
  incremental :: "bool option"
  quite :: "bool option"
  ignoreGlobal :: "bool option"
  globalConfigPath :: "string option"

text \<open>
  The calls \<^verbatim>\<open>runEleventy\<close> makes on the generator and on the exported \<^verbatim>\<open>logger\<close>,
  with their arguments: the constructor takes the source directory, the output
  directory, \<^verbatim>\<open>quietMode\<close> and \<^verbatim>\<open>configPath\<close>.
\<close>

datatype event =
    NewEleventy string string "bool option" "string option"
  | SetPathPrefix "string option"
  | SetDryRun "bool option"
  | SetIncrementalBuild "bool option"
  | SetFormats "string list option"
  | RequireAndApply string
  | Init
  | Watch
  | Serve "int option"
  | Write
  | LoggerForceLog string

text \<open>
  What a call of the generator does: it returns a promise that resolves, a promise that
  rejects, or it throws.
\<close>

datatype outcome = Resolves | Rejects | Throws

record generator =
  requireThrows :: bool
  initOutcome :: outcome
  watchOutcome :: outcome

datatype completion = Returned | Threw

text \<open>
  The callback after \<^verbatim>\<open>eleventy.watch().catch(() => watched = false)\<close>, with the value
  of \<^verbatim>\<open>watched\<close> it sees.
\<close>

definition afterWatch :: "RunOptions \<Rightarrow> bool \<Rightarrow> event list" where
  "afterWatch options watched =
     (if truthy (serve options) \<and> watched
      then [Serve (port options)]
      else [LoggerForceLog (''Started watching site '' @ sourceDir options)])"

text \<open>
  The callback of \<^verbatim>\<open>eleventy.init().then\<close>. A call that throws inside the
  \<^verbatim>\<open>try\<close> block ends the callback with nothing more done.
\<close>

definition afterInit :: "generator \<Rightarrow> RunOptions \<Rightarrow> event list" where
  "afterInit G options =
     (if truthy (serve options) \<or> truthy (watch options)
      then Watch #
        (case watchOutcome G of
           Resolves \<Rightarrow> afterWatch options True
         | Rejects \<Rightarrow> afterWatch options False
         | Throws \<Rightarrow> [])
      else [Write])"

definition configure :: "RunOptions \<Rightarrow> event list" where
  "configure options =
     [NewEleventy (sourceDir options) (RunOptions.outDir options) (quite options)
        (if truthy (ignoreGlobal options) then RunOptions.configPath options
         else globalConfigPath options),
      SetPathPrefix (RunOptions.pathPrefix options),
      SetDryRun (dryRun options),
      SetIncrementalBuild (incremental options),
      SetFormats (RunOptions.templateFormats options)]"

text \<open>
  \<^verbatim>\<open>runEleventy\<close>: the calls made, in order, and whether the function returned or an
  exception of \<^verbatim>\<open>require\<close> or of \<^verbatim>\<open>init\<close> left it. A rejected \<^verbatim>\<open>init\<close> promise
  skips the callback.
\<close>

definition runEleventy :: "generator \<Rightarrow> RunOptions \<Rightarrow> event list \<times> completion" where
  "runEleventy G options =
     (case (if \<not> truthy (ignoreGlobal options) then RunOptions.configPath options else None) of
        Some path \<Rightarrow>
          if requireThrows G then (configure options @ [RequireAndApply path], Threw)
          else
            (case initOutcome G of
               Resolves \<Rightarrow> (configure options @ [RequireAndApply path, Init] @ afterInit G options, Returned)
             | Rejects \<Rightarrow> (configure options @ [RequireAndApply path, Init], Returned)
             | Throws \<Rightarrow> (configure options @ [RequireAndApply path, Init], Threw))
      | None \<Rightarrow>
          (case initOutcome G of
             Resolves \<Rightarrow> (configure options @ [Init] @ afterInit G options, Returned)
           | Rejects \<Rightarrow> (configure options @ [Init], Returned)
           | Throws \<Rightarrow> (configure options @ [Init], Threw)))"

text \<open>The \<^verbatim>\<open>configPath\<close> the constructor was called with, read off the calls.\<close>

fun constructorConfigPath :: "event list \<Rightarrow> string option option" where
  "constructorConfigPath [] = None"
| "constructorConfigPath (NewEleventy src out q cp # es) = Some cp"
| "constructorConfigPath (e # es) = constructorConfigPath es"

text \<open>
  The \<^verbatim>\<open>then\<close> callback of \<^verbatim>\<open>init\<close> runs when the promise resolves and no
  exception has left \<^verbatim>\<open>runEleventy\<close> before.
\<close>

definition initCompletes :: "generator \<Rightarrow> RunOptions \<Rightarrow> bool" where
  "initCompletes G options =
     (initOutcome G = Resolves \<and>
      \<not> (requireThrows G \<and> \<not> truthy (ignoreGlobal options) \<and> RunOptions.configPath options \<noteq> None))"

text \<open>The calls made after \<^verbatim>\<open>init\<close>.\<close>

definition callsAfterInit :: "event list \<Rightarrow> event list" where
  "callsAfterInit calls = tl (dropWhile (\<lambda>e. e \<noteq> Init) calls)"

section \<open>Logger\<close>

text \<open>
  A property of a JavaScript object is a function of the message, whose value here is
  what the call does (or the error it throws), or some other value. An object is read
  by property name. Calling a property that is not a function is a \<^verbatim>\<open>TypeError\<close>.
\<close>

datatype ('d, 'r) jsval = Function "string \<Rightarrow> js_error + 'r" | Data 'd

fun call :: "('d, 'r) jsval \<Rightarrow> string \<Rightarrow> js_error + 'r" where
  "call (Function f) msg = f msg"
| "call (Data d) msg = Inl TypeError"

text \<open>The \<^verbatim>\<open>get\<close> trap of the proxy around the \<^verbatim>\<open>ConsoleLogger\<close> instance \<open>target\<close>.\<close>

definition logger_get :: "(string \<Rightarrow> ('d, 'r) jsval) \<Rightarrow> string \<Rightarrow> ('d, 'r) jsval" where
  "logger_get target prop =
     (if prop \<in> set [''log'', ''forceLog'', ''warn'', ''error'']
      then Function (\<lambda>msg. call (target prop) (''[multisite] '' @ msg))
      else target prop)"

text \<open>A logger object for examples: its four methods record the message they receive.\<close>

definition recordingLogger :: "string \<Rightarrow> (nat, string \<times> string) jsval" where
  "recordingLogger prop =
     (if prop \<in> set [''log'', ''forceLog'', ''warn'', ''error'']
      then Function (\<lambda>msg. Inr (prop, msg))
      else if prop = ''isVerbose'' then Data 1 else Data 0)"

section \<open>Concrete inputs for the examples\<close>

definition docsOnlyConfig :: Config where
  "docsOnlyConfig = DEFAULT_CONFIG\<lparr>sites := [SitePair ''docs'' docsOverride]\<rparr>"

text \<open>A matcher that differs from \<open>minimatchFragment\<close> on the site \<^verbatim>\<open>other\<close> only.\<close>

definition otherMatcher :: "string \<Rightarrow> string \<Rightarrow> bool" where
  "otherMatcher site glob = (if site = ''other'' then False else minimatchFragment site glob)"

definition blogOptions :: RunOptions where
  "blogOptions =
     \<lparr>sourceDir = ''sites/blog'', outDir = ''_out/blog'', configPath = Some ''sites/blog/.eleventy.js'',
      pathPrefix = None, templateFormats = None, port = Some 8080, serve = None, watch = None,
      dryRun = None, incremental = None, quite = None,
      ignoreGlobal = Some False, globalConfigPath = None\<rparr>"

definition okGenerator :: generator where
  "okGenerator = \<lparr>requireThrows = False, initOutcome = Resolves, watchOutcome = Resolves\<rparr>"

text \<open>
  A project directory with the sites \<^verbatim>\<open>blog\<close> and \<^verbatim>\<open>docs\<close> and the directories
  \<^verbatim>\<open>_includes\<close> and \<^verbatim>\<open>_out\<close> under \<^verbatim>\<open>sites/\<close>, and no \<^verbatim>\<open>.gitignore\<close>.
\<close>

definition sitesGlob :: "string \<Rightarrow> str_or_list option \<Rightarrow> string list" where
  "sitesGlob pattern ignored =
     (if pattern = ''sites/*/''
      then [''sites/_includes/'', ''sites/_out/'', ''sites/blog/'', ''sites/docs/'']
      else if pattern = ''sites/blog/'' then [''sites/blog/'']
      else [])"

definition projectEnv :: env where
  "projectEnv = posixEnv ''/home/user/project'' NoGitignore sitesGlob"

definition nestedConfig :: Config where
  "nestedConfig =
     DEFAULT_CONFIG\<lparr>Config.outDir := ''sites/_out/'', includesDir := Some ''sites/_includes/''\<rparr>"

text \<open>
  A project whose base directory does not exist, so that no pattern matches, with a
  \<^verbatim>\<open>.gitignore\<close> filter that throws on every path it is asked about.
\<close>

definition missingEnv :: env where
  "missingEnv =
     posixEnv ''/home/user/project'' (Rules (\<lambda>p. Inl RangeError)) (\<lambda>pattern ignored. [])"

definition missingConfig :: Config where
  "missingConfig = DEFAULT_CONFIG\<lparr>baseDir := ''../missing/''\<rparr>"

text \<open>The same project with a \<^verbatim>\<open>.gitignore\<close> that exists and cannot be read.\<close>

definition unreadableEnv :: env where
  "unreadableEnv = posixEnv ''/home/user/project'' Unreadable (\<lambda>pattern ignored. [])"

text \<open>
  A \<^verbatim>\<open>.gitignore\<close> without rules, whose filter throws, as the \<^verbatim>\<open>ignore\<close> package
  does, on a path that is not relative to the working directory; and a file system
  without \<^verbatim>\<open>../missing\<close> but with the directory \<^verbatim>\<open>../other/a\<close>.
\<close>

definition relativeOnly :: "string \<Rightarrow> js_error + bool" where
  "relativeOnly p =
     (if startsWith p ''/'' \<or> startsWith p ''./'' \<or> startsWith p ''../''
      then Inl RangeError else Inr False)"

definition otherEnv :: env where
  "otherEnv =
     posixEnv ''/home/user/project'' (Rules relativeOnly)
       (\<lambda>pattern ignored. if pattern = ''../other/*/'' then [''../other/a/''] else [])"

text \<open>
  A project whose output directory is the base directory, with the directories
  \<^verbatim>\<open>blog\<close> and \<^verbatim>\<open>..x\<close> under it.
\<close>

definition dotdotEnv :: env where
  "dotdotEnv =
     posixEnv ''/home/user/project'' NoGitignore
       (\<lambda>pattern ignored.
          if pattern = ''sites/*/'' then [''sites/blog/'']
          else if pattern = ''sites/..x/'' then [''sites/..x/'']
          else [])"

definition sameOutConfig :: Config where
  "sameOutConfig = DEFAULT_CONFIG\<lparr>Config.outDir := ''sites/''\<rparr>"


section \<open>Properties of the config resolver\<close>

lemma matchSites_find:
  "matchSites mm specs site =
     (case find (\<lambda>s. mm site (specGlob s)) specs of
        None \<Rightarrow> None
      | Some (SiteString g) \<Rightarrow> None
      | Some (SitePair g c) \<Rightarrow> Some c)"
  by (induction specs) (auto split: SiteSpec.splits)

lemma matchSites_append:
  "\<forall>s \<in> set pre. \<not> mm site (specGlob s) \<Longrightarrow>
   matchSites mm (pre @ rest) site = matchSites mm rest site"
  by (induction pre) auto

lemma matchSites_cong:
  "\<forall>s \<in> set specs. mm1 site (specGlob s) = mm2 site (specGlob s) \<Longrightarrow>
   matchSites mm1 specs site = matchSites mm2 specs site"
  by (induction specs) auto

text \<open>
  C1 (as amended). \<^verbatim>\<open>matchSiteConfig\<close> has two kinds of result, not three: it returns
  the override object of the first matching SiteSpec when that spec is a pair, and
  \<^verbatim>\<open>undefined\<close> otherwise. \<^verbatim>\<open>undefined\<close> is returned both when the first matching
  spec is a bare string and when no spec matches, so the result alone does not tell
  "use default" from "no match".
\<close>

theorem matchSiteConfig_outcomes:
  "matchSiteConfig mm config site =
     (case firstMatch mm config site of
        None \<Rightarrow> None
      | Some (SiteString g) \<Rightarrow> None
      | Some (SitePair g c) \<Rightarrow> Some c)"
  by (simp add: matchSiteConfig_def firstMatch_def matchSites_find)

theorem matchSiteConfig_outcomes_witness:
  "matchSiteConfig minimatchFragment exampleConfig ''docs'' = Some docsOverride"
  using matchSiteConfig_outcomes [of minimatchFragment exampleConfig "''docs''"]
  by (simp add: firstMatch_def exampleConfig_def minimatchFragment_def)

text \<open>
  C1 as stated fails: with the default configuration the site \<^verbatim>\<open>blog\<close> is matched by
  the bare string \<^verbatim>\<open>*\<close> ("use default"), with a configuration that lists only
  \<^verbatim>\<open>docs\<close> it is matched by nothing ("no match"), and both calls return
  \<^verbatim>\<open>undefined\<close>.
\<close>

theorem matchSiteConfig_no_match_equals_use_default:
  "firstMatch minimatchFragment DEFAULT_CONFIG ''blog'' = Some (SiteString ''*'') \<and>
   firstMatch minimatchFragment docsOnlyConfig ''blog'' = None \<and>
   matchSiteConfig minimatchFragment DEFAULT_CONFIG ''blog'' = None \<and>
   matchSiteConfig minimatchFragment docsOnlyConfig ''blog'' = None"
  by (simp add: firstMatch_def matchSiteConfig_def DEFAULT_CONFIG_def docsOnlyConfig_def
      minimatchFragment_def)

text \<open>
  C5. When several SiteSpecs match the site, the result is the one of the first matching
  spec in declaration order: its override if it is a pair, "use default"
  (\<^verbatim>\<open>undefined\<close>) if it is a bare string. The specs after it, matching or not, have no
  influence.
\<close>

theorem matchSiteConfig_first_match:
  assumes "sites config = pre @ spec # post"
    and "\<forall>s \<in> set pre. \<not> mm site (specGlob s)"
    and "mm site (specGlob spec)"
  shows "matchSiteConfig mm config site =
           (case spec of SiteString g \<Rightarrow> None | SitePair g c \<Rightarrow> Some c)"
proof -
  have "matchSites mm (pre @ spec # post) site = matchSites mm (spec # post) site"
    using assms(2) by (rule matchSites_append)
  with assms(1,3) show ?thesis
    by (simp add: matchSiteConfig_def)
qed

theorem matchSiteConfig_first_match_witness:
  "sites exampleConfig =
     [SiteString ''blog/*''] @ SitePair ''docs'' docsOverride # [SitePair ''*'' otherOverride] \<and>
   minimatchFragment ''docs'' ''*'' \<and>
   matchSiteConfig minimatchFragment exampleConfig ''docs'' = Some docsOverride"
  using matchSiteConfig_first_match [of exampleConfig "[SiteString ''blog/*'']"
      "SitePair ''docs'' docsOverride"
      "[SitePair ''*'' otherOverride]"
      minimatchFragment "''docs''"]
  by (simp add: exampleConfig_def minimatchFragment_def)

text \<open>
  C9. The result of \<^verbatim>\<open>matchSiteConfig\<close> is a function of the config, the site and the
  verdicts of the glob matcher on this site and the globs of \<^verbatim>\<open>config.sites\<close>,
  and of nothing else: two calls with the same config and site whose matcher gives the
  same verdicts on these pairs return the same result, whatever the matcher says about
  other sites and whatever was called before.
\<close>

theorem matchSiteConfig_deterministic:
  assumes "\<forall>s \<in> set (sites config). mm1 site (specGlob s) = mm2 site (specGlob s)"
  shows "matchSiteConfig mm1 config site = matchSiteConfig mm2 config site"
  unfolding matchSiteConfig_def using assms by (rule matchSites_cong)

theorem matchSiteConfig_deterministic_witness:
  "otherMatcher ''other'' ''*'' \<noteq> minimatchFragment ''other'' ''*'' \<and>
   matchSiteConfig otherMatcher exampleConfig ''docs'' =
     matchSiteConfig minimatchFragment exampleConfig ''docs''"
  using matchSiteConfig_deterministic [of exampleConfig otherMatcher "''docs''" minimatchFragment]
  by (simp add: exampleConfig_def otherMatcher_def minimatchFragment_def)

section \<open>Properties of the site runner\<close>

lemma constructorConfigPath_configure:
  "constructorConfigPath (configure options @ rest) =
     Some (if truthy (ignoreGlobal options) then RunOptions.configPath options
           else globalConfigPath options)"
  by (simp add: configure_def)

lemma callsAfterInit_configure:
  "callsAfterInit (configure options @ Init # rest) = rest"
  "callsAfterInit (configure options @ RequireAndApply p # Init # rest) = rest"
  by (simp_all add: callsAfterInit_def configure_def)

lemma runEleventy_callsAfterInit:
  assumes "initCompletes G options"
  shows "callsAfterInit (fst (runEleventy G options)) = afterInit G options"
  using assms
  by (auto simp: initCompletes_def runEleventy_def callsAfterInit_configure
      split: option.splits)

text \<open>
  C2 (as amended). The configuration file path handed to the generator constructor is
  the site's own \<^verbatim>\<open>configPath\<close> when \<^verbatim>\<open>options.ignoreGlobal\<close> is truthy, and
  \<^verbatim>\<open>options.globalConfigPath\<close> otherwise, also when \<^verbatim>\<open>globalConfigPath\<close> is absent:
  then the constructor is given no path (\<^verbatim>\<open>undefined\<close>), not the site's own.
\<close>

theorem runEleventy_constructor_configPath:
  "constructorConfigPath (fst (runEleventy G options)) =
     Some (if truthy (ignoreGlobal options) then RunOptions.configPath options
           else globalConfigPath options)"
  by (simp add: runEleventy_def constructorConfigPath_configure
      split: option.splits outcome.splits)

theorem runEleventy_constructor_configPath_witness:
  "constructorConfigPath
     (fst (runEleventy okGenerator (blogOptions\<lparr>ignoreGlobal := Some True\<rparr>))) =
   Some (Some ''sites/blog/.eleventy.js'')"
  using runEleventy_constructor_configPath [of okGenerator "blogOptions\<lparr>ignoreGlobal := Some True\<rparr>"]
  by (simp add: blogOptions_def)

text \<open>
  C2 as stated fails: with \<^verbatim>\<open>ignoreGlobal\<close> false, no \<^verbatim>\<open>globalConfigPath\<close> and a
  site \<^verbatim>\<open>configPath\<close>, the constructor is called with \<^verbatim>\<open>configPath: undefined\<close>;
  the site's path is not the one used.
\<close>

theorem runEleventy_absent_global_not_site_path:
  "ignoreGlobal blogOptions = Some False \<and>
   globalConfigPath blogOptions = None \<and>
   RunOptions.configPath blogOptions = Some ''sites/blog/.eleventy.js'' \<and>
   constructorConfigPath (fst (runEleventy okGenerator blogOptions)) = Some None"
  by (simp add: blogOptions_def okGenerator_def runEleventy_def configure_def)

text \<open>
  C8. Once initialization has completed: when serve or watch is requested and the
  generator's watch promise rejects, serve is not started and
  \<^verbatim>\<open>logger.forceLog\<close> is called with the notice that watching started; when watch
  succeeds and serve was requested, serve is started on \<^verbatim>\<open>options.port\<close>; when
  neither serve nor watch is requested, the one call made is \<^verbatim>\<open>write\<close>.
\<close>

theorem runEleventy_watch_serve_write:
  assumes "initCompletes G options"
  shows "((truthy (serve options) \<or> truthy (watch options)) \<and> watchOutcome G = Rejects \<longrightarrow>
            callsAfterInit (fst (runEleventy G options)) =
              [Watch, LoggerForceLog (''Started watching site '' @ sourceDir options)]) \<and>
         (truthy (serve options) \<and> watchOutcome G = Resolves \<longrightarrow>
            callsAfterInit (fst (runEleventy G options)) = [Watch, Serve (port options)]) \<and>
         (\<not> truthy (serve options) \<and> \<not> truthy (watch options) \<longrightarrow>
            callsAfterInit (fst (runEleventy G options)) = [Write])"
  by (simp add: runEleventy_callsAfterInit [OF assms] afterInit_def afterWatch_def)

theorem runEleventy_watch_serve_write_witness:
  "callsAfterInit
     (fst (runEleventy (okGenerator\<lparr>watchOutcome := Rejects\<rparr>) (blogOptions\<lparr>serve := Some True\<rparr>))) =
     [Watch, LoggerForceLog ''Started watching site sites/blog''] \<and>
   callsAfterInit (fst (runEleventy okGenerator (blogOptions\<lparr>serve := Some True\<rparr>))) =
     [Watch, Serve (Some 8080)] \<and>
   callsAfterInit (fst (runEleventy okGenerator blogOptions)) = [Write]"
  using runEleventy_watch_serve_write [of "okGenerator\<lparr>watchOutcome := Rejects\<rparr>" "blogOptions\<lparr>serve := Some True\<rparr>"]
    runEleventy_watch_serve_write [of okGenerator "blogOptions\<lparr>serve := Some True\<rparr>"]
    runEleventy_watch_serve_write [of okGenerator blogOptions]
  by (simp add: initCompletes_def okGenerator_def blogOptions_def)

section \<open>Properties of the logger\<close>

text \<open>
  C10. For each of \<^verbatim>\<open>log\<close>, \<^verbatim>\<open>forceLog\<close>, \<^verbatim>\<open>warn\<close> and \<^verbatim>\<open>error\<close>, calling the
  property of the proxy with a message is calling the wrapped logger's property of the
  same name with \<^verbatim>\<open>[multisite] \<close> prepended to the message; reading any other property
  of the proxy gives the wrapped logger's property itself.
\<close>

theorem logger_get_prefixes:
  "(prop \<in> {''log'', ''forceLog'', ''warn'', ''error''} \<longrightarrow>
      (\<forall>msg. call (logger_get target prop) msg = call (target prop) (''[multisite] '' @ msg))) \<and>
   (prop \<notin> {''log'', ''forceLog'', ''warn'', ''error''} \<longrightarrow> logger_get target prop = target prop)"
  by (simp add: logger_get_def)

theorem logger_get_prefixes_witness:
  "call (logger_get recordingLogger ''warn'') ''no sites'' = Inr (''warn'', ''[multisite] no sites'') \<and>
   logger_get recordingLogger ''isVerbose'' = Data 1"
  using logger_get_prefixes [of "''warn''" recordingLogger]
    logger_get_prefixes [of "''isVerbose''" recordingLogger]
  by (simp add: recordingLogger_def)

section \<open>Properties of the pattern matcher\<close>


lemma ignoreFilter_Nil: "ignoreFilter E = Inr filt \<Longrightarrow> filt [] = Inr []"
  by (auto simp: ignoreFilter_def split: gitignore_file.splits)


lemma globPattern_separator:
  "\<not> endsWith p ''/'' \<Longrightarrow> globPattern E config (p @ ''/'') = globPattern E config p"
  by (simp add: globPattern_def endsWith_def)

lemma findSitesLoop_cong:
  "map (globPattern E config) ps = map (globPattern E config) qs \<Longrightarrow>
   findSitesLoop E config filt r ps = findSitesLoop E config filt r qs"
proof (induction ps arbitrary: qs r)
  case Nil
  then show ?case by simp
next
  case (Cons p ps)
  then obtain q qs' where "qs = q # qs'" by (cases qs) auto
  with Cons show ?case by (auto split: sum.splits)
qed

lemma findSitesLoop_no_matches:
  "filt [] = Inr [] \<Longrightarrow>
   \<forall>p \<in> set ps. globSync E (globPattern E config p) (excludes config) = [] \<Longrightarrow>
   findSitesLoop E config filt r ps = Inr r"
  by (induction ps) auto

lemma findSitesLoop_skip:
  "filt [] = Inr [] \<Longrightarrow>
   globSync E (globPattern E config p) (excludes config) = [] \<Longrightarrow>
   findSitesLoop E config filt r (ps @ p # qs) = findSitesLoop E config filt r (ps @ qs)"
  by (induction ps arbitrary: r) (auto split: sum.splits)





text \<open>
  C3 does not hold of the code. The test for "inside" is that the relative path does
  not start with the two characters \<^verbatim>\<open>..\<close>, so a directory under a boundary directory
  whose name starts with \<^verbatim>\<open>..\<close> is taken to be outside it: with \<^verbatim>\<open>outDir\<close> equal to
  \<^verbatim>\<open>sites/\<close>, the match \<^verbatim>\<open>sites/..x/\<close> lies under \<^verbatim>\<open>outDir\<close>, as \<^verbatim>\<open>sites/blog/\<close>
  does, and \<^verbatim>\<open>findSites\<close> drops \<^verbatim>\<open>blog\<close> and returns \<^verbatim>\<open>..x\<close>.
\<close>

theorem findSites_returns_dotdot_name_under_outDir:
  "nestedUnder ''/home/user/project'' (Config.outDir sameOutConfig) ''sites/blog/'' \<and>
   nestedUnder ''/home/user/project'' (Config.outDir sameOutConfig) ''sites/..x/'' \<and>
   globSync dotdotEnv (globPattern dotdotEnv sameOutConfig ''*'') (excludes sameOutConfig) =
     [''sites/blog/''] \<and>
   globSync dotdotEnv (globPattern dotdotEnv sameOutConfig ''..x'') (excludes sameOutConfig) =
     [''sites/..x/''] \<and>
   findSites dotdotEnv sameOutConfig (StrList [''*'', ''..x'']) = Inr [''..x'']"
  by code_simp




text \<open>
  C6. A pattern without a trailing separator gives the same result as the pattern with
  the separator appended, alone or at any position of a pattern list: both are handed
  to the glob expansion as the same string.
\<close>

theorem findSites_trailing_separator:
  assumes "\<not> endsWith p ''/''"
  shows "findSites E config (Str (p @ ''/'')) = findSites E config (Str p) \<and>
         findSites E config (StrList (ps @ (p @ ''/'') # qs)) =
           findSites E config (StrList (ps @ p # qs))"
proof (cases "ignoreFilter E")
  case (Inl e)
  then show ?thesis by (simp add: findSites_def)
next
  case (Inr filt)
  have one: "findSitesLoop E config filt [] [p @ ''/''] = findSitesLoop E config filt [] [p]"
    using assms by (intro findSitesLoop_cong) (simp add: globPattern_separator)
  have many: "findSitesLoop E config filt [] (ps @ (p @ ''/'') # qs) =
                findSitesLoop E config filt [] (ps @ p # qs)"
    using assms by (intro findSitesLoop_cong) (simp add: globPattern_separator)
  from Inr one many show ?thesis
    by (simp add: findSites_def del: findSitesLoop.simps)
qed

theorem findSites_trailing_separator_witness:
  "findSites projectEnv nestedConfig (Str ''blog/'') = Inr [''blog''] \<and>
   findSites projectEnv nestedConfig (Str ''blog'') = Inr [''blog'']"
proof -
  have run: "findSites projectEnv nestedConfig (Str ''blog'') = Inr [''blog'']"
    by code_simp
  have "\<not> endsWith ''blog'' ''/''"
    by code_simp
  from findSites_trailing_separator [OF this, of projectEnv nestedConfig "[]" "[]"] run
  show ?thesis by simp
qed

text \<open>
  C7 (as amended). When the \<^verbatim>\<open>.gitignore\<close> of the working directory is absent or can
  be read and the expansion of every pattern yields no match, \<^verbatim>\<open>findSites\<close> returns
  the empty sequence and raises nothing, also with an ignore filter that would throw on
  any path. In every case a pattern whose expansion yields no match adds nothing and
  raises nothing: the call behaves as without it.
\<close>

theorem findSites_nothing_matched:
  "(gitignore E \<noteq> Unreadable \<and>
    (\<forall>pattern \<in> set (patternList patterns).
       globSync E (globPattern E config pattern) (excludes config) = []) \<longrightarrow>
      findSites E config patterns = Inr []) \<and>
   (globSync E (globPattern E config p) (excludes config) = [] \<longrightarrow>
      findSites E config (StrList (ps @ p # qs)) = findSites E config (StrList (ps @ qs)))"
proof (intro conjI impI)
  assume a: "gitignore E \<noteq> Unreadable \<and>
    (\<forall>pattern \<in> set (patternList patterns).
       globSync E (globPattern E config pattern) (excludes config) = [])"
  then obtain filt where f: "ignoreFilter E = Inr filt"
    by (cases "gitignore E") (simp_all add: ignoreFilter_def)
  have nil: "filt [] = Inr []"
    using f by (rule ignoreFilter_Nil)
  have "findSitesLoop E config filt [] (patternList patterns) = Inr []"
    using nil a by (intro findSitesLoop_no_matches) simp_all
  then show "findSites E config patterns = Inr []"
    by (simp add: findSites_def f)
next
  assume a: "globSync E (globPattern E config p) (excludes config) = []"
  show "findSites E config (StrList (ps @ p # qs)) = findSites E config (StrList (ps @ qs))"
  proof (cases "ignoreFilter E")
    case (Inl e)
    then show ?thesis by (simp add: findSites_def)
  next
    case (Inr filt)
    have nil: "filt [] = Inr []"
      using Inr by (rule ignoreFilter_Nil)
    have "findSitesLoop E config filt [] (ps @ p # qs) = findSitesLoop E config filt [] (ps @ qs)"
      using nil a by (rule findSitesLoop_skip)
    with Inr show ?thesis
      by (simp add: findSites_def)
  qed
qed

theorem findSites_nothing_matched_witness:
  "findSites missingEnv missingConfig (StrList [''*'', ''blog'']) = Inr [] \<and>
   findSites projectEnv nestedConfig (StrList [''drafts'', ''blog'']) = Inr [''blog'']"
proof -
  have run: "findSites projectEnv nestedConfig (StrList [''blog'']) = Inr [''blog'']"
    by code_simp
  have none: "globSync projectEnv (globPattern projectEnv nestedConfig ''drafts'') (excludes nestedConfig) = []"
    by code_simp
  have readable: "gitignore missingEnv \<noteq> Unreadable"
    by (simp add: missingEnv_def posixEnv_def)
  have missing: "\<forall>pattern \<in> set (patternList (StrList [''*'', ''blog''])).
      globSync missingEnv (globPattern missingEnv missingConfig pattern) (excludes missingConfig) = []"
    by (simp add: missingEnv_def posixEnv_def)
  from findSites_nothing_matched [of missingEnv "StrList [''*'', ''blog'']" missingConfig]
    findSites_nothing_matched [of projectEnv _ nestedConfig "''drafts''" "[]" "[''blog'']"]
    run none readable missing
  show ?thesis by simp
qed

text \<open>
  C7 as stated fails. With a base directory that does not exist and patterns that match
  nothing, \<^verbatim>\<open>findSites\<close> throws when a \<^verbatim>\<open>.gitignore\<close> exists that cannot be read. And a
  base directory that does not exist does not keep a pattern from matching: the pattern
  \<^verbatim>\<open>../other/*\<close> joined to the missing \<^verbatim>\<open>../missing/\<close> is \<^verbatim>\<open>../other/*/\<close>, its match
  \<^verbatim>\<open>../other/a/\<close> is handed to the ignore filter, and the filter throws.
\<close>

theorem findSites_raises_for_missing_baseDir:
  "globSync unreadableEnv (globPattern unreadableEnv missingConfig ''*'') (excludes missingConfig) = [] \<and>
   findSites unreadableEnv missingConfig (Str ''*'') = Inl SystemError \<and>
   globPattern otherEnv missingConfig ''../other/*'' = ''../other/*/'' \<and>
   findSites otherEnv missingConfig (Str ''../other/*'') = Inl RangeError"
  by code_simp

end
